theory Spec2Isabelle
  imports Complex_Main
begin

section \<open>JavaScript values\<close>

text \<open>
  The program of \<^verbatim>\<open>scripts/app.js\<close> works on the values that \<^verbatim>\<open>response.json()\<close>
  decodes, and on \<^verbatim>\<open>undefined\<close>, which every read of a missing property yields.
  An object is the list of its own properties; a read takes the first entry of a name.
  A character stands for the UTF-16 code unit of the same number (below 256).
  A number is its mathematical value: JSON has neither \<^verbatim>\<open>NaN\<close> nor an infinity.
\<close>

datatype jsval =
    JUndefined
  | JNull
  | JBool bool
  | JNum rat
  | JStr string
  | JArr "jsval list"
  | JObj "(string \<times> jsval) list"

text \<open>
  An error object is its \<^verbatim>\<open>name\<close> and its \<^verbatim>\<open>message\<close>. The text of a message that
  the engine writes (a TypeError for a read on \<^verbatim>\<open>undefined\<close>, a RangeError for an
  invalid date) differs between engines and is not modelled: it is \<open>EngineText\<close>.

  What an \<^verbatim>\<open>await\<close> gives in place of a value is the error thrown, or nothing at all
  when the promise never settles (\<open>NeverSettles\<close>): then nothing after the \<^verbatim>\<open>await\<close>
  runs, no \<^verbatim>\<open>catch\<close> block included, and whoever awaits the function waits for ever too.
\<close>

datatype message = Text string | EngineText

datatype error = Error string message | NeverSettles

definition newError :: "string \<Rightarrow> error" where
  "newError msg = Error ''Error'' (Text msg)"

definition typeError :: error where
  "typeError = Error ''TypeError'' EngineText"

definition rangeError :: error where
  "rangeError = Error ''RangeError'' EngineText"

text \<open>Sequencing of steps that may throw: the first throw ends the rest.\<close>

fun andThen :: "error + 'a \<Rightarrow> ('a \<Rightarrow> error + 'b) \<Rightarrow> error + 'b" where
  "andThen (Inl e) f = Inl e"
| "andThen (Inr v) f = f v"

text \<open>What \<^verbatim>\<open>!v\<close> and \<^verbatim>\<open>v || w\<close> test.\<close>

fun truthy :: "jsval \<Rightarrow> bool" where
  "truthy JUndefined = False"
| "truthy JNull = False"
| "truthy (JBool b) = b"
| "truthy (JNum r) = (r \<noteq> 0)"
| "truthy (JStr s) = (s \<noteq> [])"
| "truthy (JArr xs) = True"
| "truthy (JObj ps) = True"

text \<open>Decimal digits of a natural number, as \<^verbatim>\<open>String(n)\<close> writes an index.\<close>

fun show_nat :: "nat \<Rightarrow> string" where
  "show_nat n =
     (if n < 10 then [char_of (48 + n)]
      else show_nat (n div 10) @ [char_of (48 + n mod 10)])"

declare show_nat.simps [simp del]

text \<open>
  \<^verbatim>\<open>o.k\<close> for the property names the program reads (\<^verbatim>\<open>results\<close>, \<^verbatim>\<open>length\<close>,
  \<^verbatim>\<open>latitude\<close>, \<^verbatim>\<open>daily\<close>, \<^verbatim>\<open>time\<close>, ...), none of which a prototype defines except
  \<^verbatim>\<open>length\<close> of arrays and strings. A read on \<^verbatim>\<open>undefined\<close> or \<^verbatim>\<open>null\<close> throws.
\<close>

fun getProp :: "jsval \<Rightarrow> string \<Rightarrow> error + jsval" where
  "getProp JUndefined k = Inl typeError"
| "getProp JNull k = Inl typeError"
| "getProp (JObj ps) k = Inr (case map_of ps k of Some v \<Rightarrow> v | None \<Rightarrow> JUndefined)"
| "getProp (JArr xs) k = Inr (if k = ''length'' then JNum (of_nat (length xs)) else JUndefined)"
| "getProp (JStr s) k = Inr (if k = ''length'' then JNum (of_nat (length s)) else JUndefined)"
| "getProp (JBool b) k = Inr JUndefined"
| "getProp (JNum r) k = Inr JUndefined"

text \<open>\<^verbatim>\<open>o[i]\<close> for an index \<open>i\<close>: out of range it is \<^verbatim>\<open>undefined\<close>, never an error.\<close>

fun getIndex :: "jsval \<Rightarrow> nat \<Rightarrow> error + jsval" where
  "getIndex JUndefined i = Inl typeError"
| "getIndex JNull i = Inl typeError"
| "getIndex (JArr xs) i = Inr (if i < length xs then xs ! i else JUndefined)"
| "getIndex (JStr s) i = Inr (if i < length s then JStr [s ! i] else JUndefined)"
| "getIndex (JObj ps) i = Inr (case map_of ps (show_nat i) of Some v \<Rightarrow> v | None \<Rightarrow> JUndefined)"
| "getIndex (JBool b) i = Inr JUndefined"
| "getIndex (JNum r) i = Inr JUndefined"

section \<open>The table of weather codes\<close>

text \<open>
  \<^verbatim>\<open>weatherIcons\<close> (app.js, lines 2 to 31): each entry is the numeric key as written and
  the object \<^verbatim>\<open>{description, iconClass}\<close>.
\<close>

definition weatherIcons :: "(nat \<times> string \<times> string) list" where
  "weatherIcons =
    [(0, ''Clear sky'', ''wi-day-sunny''),
     (1, ''Mainly clear'', ''wi-day-sunny-overcast''),
     (2, ''Partly cloudy'', ''wi-day-cloudy''),
     (3, ''Overcast'', ''wi-cloudy''),
     (45, ''Fog'', ''wi-fog''),
     (48, ''Depositing rime fog'', ''wi-fog''),
     (51, ''Light drizzle'', ''wi-sprinkle''),
     (53, ''Moderate drizzle'', ''wi-sprinkle''),
     (55, ''Dense drizzle'', ''wi-showers''),
     (56, ''Light freezing drizzle'', ''wi-hail''),
     (57, ''Dense freezing drizzle'', ''wi-hail''),
     (61, ''Slight rain'', ''wi-sprinkle''),
     (63, ''Moderate rain'', ''wi-rain''),
     (65, ''Heavy rain'', ''wi-rain-wind''),
     (66, ''Light freezing rain'', ''wi-rain-mix''),
     (67, ''Heavy freezing rain'', ''wi-rain-mix''),
     (71, ''Slight snowfall'', ''wi-snow''),
     (73, ''Moderate snowfall'', ''wi-snow''),
     (75, ''Heavy snowfall'', ''wi-snow''),
     (77, ''Snow grains'', ''wi-snowflake-cold''),
     (80, ''Slight rain showers'', ''wi-showers''),
     (81, ''Moderate rain showers'', ''wi-showers''),
     (82, ''Violent rain showers'', ''wi-storm-showers''),
     (85, ''Slight snow showers'', ''wi-snow''),
     (86, ''Heavy snow showers'', ''wi-snow''),
     (95, ''Thunderstorm'', ''wi-thunderstorm''),
     (96, ''Thunderstorm with slight hail'', ''wi-thunderstorm''),
     (99, ''Thunderstorm with heavy hail'', ''wi-thunderstorm'')]"

definition knownCodes :: "nat list" where
  "knownCodes = map fst weatherIcons"

text \<open>
  The own properties of the object: a numeric key of an object literal is stored under
  its decimal string.
\<close>

definition ownProperties :: "(string \<times> string \<times> string) list" where
  "ownProperties = map (\<lambda>(code, info). (show_nat code, info)) weatherIcons"

text \<open>
  The names that \<^verbatim>\<open>weatherIcons\<close> inherits from \<^verbatim>\<open>Object.prototype\<close>. Each of them is a
  function or an object, so truthy, and has neither a \<^verbatim>\<open>description\<close> nor an
  \<^verbatim>\<open>iconClass\<close>.
\<close>

definition objectPrototypeNames :: "string list" where
  "objectPrototypeNames =
    [''constructor'', ''hasOwnProperty'', ''isPrototypeOf'', ''propertyIsEnumerable'',
     ''toLocaleString'', ''toString'', ''valueOf'', ''__proto__'',
     ''__defineGetter__'', ''__defineSetter__'', ''__lookupGetter__'', ''__lookupSetter__'']"

text \<open>
  Conversion to a string (\<^verbatim>\<open>ToString\<close>: template literals, property keys,
  \<^verbatim>\<open>toString()\<close>) throws a TypeError on an object whose own \<^verbatim>\<open>toString\<close> hides the
  inherited method, since no decoded value is callable; an array converts its elements.
\<close>

primrec throwsToString :: "jsval \<Rightarrow> bool" where
  "throwsToString JUndefined = False"
| "throwsToString JNull = False"
| "throwsToString (JBool b) = False"
| "throwsToString (JNum r) = False"
| "throwsToString (JStr s) = False"
| "throwsToString (JArr xs) = list_ex (\<lambda>b. b) (map throwsToString xs)"
| "throwsToString (JObj ps) = (''toString'' \<in> set (map fst ps))"

text \<open>
  The property key that \<^verbatim>\<open>weatherIcons[v]\<close> reads, when the conversion does not throw.
  \<open>None\<close> stands for a key that names no property of the table or of its prototype:
  the engine's string of a number that is not an integer, or is beyond \<open>2 ^ 53\<close>, has a
  point, an exponent or at least sixteen digits; the join of two or more array elements
  has a comma.
\<close>

fun propertyKey :: "jsval \<Rightarrow> string option" where
  "propertyKey JUndefined = Some ''undefined''"
| "propertyKey JNull = Some ''null''"
| "propertyKey (JBool b) = Some (if b then ''true'' else ''false'')"
| "propertyKey (JNum r) =
     (if r = of_int \<lfloor>r\<rfloor> \<and> \<bar>r\<bar> \<le> 2 ^ 53
      then Some (if r < 0 then CHR ''-'' # show_nat (nat (- \<lfloor>r\<rfloor>)) else show_nat (nat \<lfloor>r\<rfloor>))
      else None)"
| "propertyKey (JStr s) = Some s"
| "propertyKey (JArr []) = Some []"
| "propertyKey (JArr [x]) = (if x = JUndefined \<or> x = JNull then Some [] else propertyKey x)"
| "propertyKey (JArr (x # y # ys)) = None"
| "propertyKey (JObj ps) = Some ''[object Object]''"

text \<open>
  \<^verbatim>\<open>weatherIcons[code] || { description: "Unknown condition", iconClass: "wi-na" }\<close>
  (lines 153 and 158), as the pair of the \<^verbatim>\<open>description\<close> and the \<^verbatim>\<open>iconClass\<close> that are
  then read from it.
\<close>

definition weatherInfo :: "jsval \<Rightarrow> error + jsval \<times> jsval" where
  "weatherInfo code =
     (if throwsToString code then Inl typeError
      else
        (case propertyKey code of
           None \<Rightarrow> Inr (JStr ''Unknown condition'', JStr ''wi-na'')
         | Some k \<Rightarrow>
             (case map_of ownProperties k of
                Some (description, iconClass) \<Rightarrow> Inr (JStr description, JStr iconClass)
              | None \<Rightarrow>
                  if k \<in> set objectPrototypeNames then Inr (JUndefined, JUndefined)
                  else Inr (JStr ''Unknown condition'', JStr ''wi-na''))))"

section \<open>The environment\<close>

text \<open>
  What the network does with a request that nobody aborts. Times are milliseconds from
  the call of \<^verbatim>\<open>fetch\<close>.
  \<^item> \<open>Fails t err\<close>: at time \<open>t\<close> the request fails, and \<^verbatim>\<open>fetch\<close> would reject with \<open>err\<close>
    (a \<^verbatim>\<open>TypeError\<close>).
  \<^item> \<open>Answers t ok body\<close>: at time \<open>t\<close> the response arrives (status line and headers) with
    the flag \<^verbatim>\<open>ok\<close>; \<open>body\<close> is what \<^verbatim>\<open>response.json()\<close> then gives, whenever the body
    has come: a decoded value, the error it rejects with (a \<^verbatim>\<open>SyntaxError\<close> for a body
    that is not JSON), or \<open>Inl NeverSettles\<close> for a body that never comes to its end.
  \<^item> \<open>Silent\<close>: nothing ever arrives.
\<close>

datatype exchange = Fails nat error | Answers nat bool "error + jsval" | Silent

text \<open>How an awaited \<^verbatim>\<open>fetch\<close> ends: it rejects with an error or resolves with a response.\<close>

datatype fetch_outcome = Rejected error | Responded bool "error + jsval"

text \<open>
  The browser around the program: the network, the clock (\<open>now\<close> is the time value of
  \<^verbatim>\<open>new Date()\<close>, milliseconds since the epoch, UTC), the local time zone as the
  \<open>LocalTZA(t, isUTC)\<close> of ECMA-262 (the offset of local time from UTC in milliseconds,
  at the UTC time \<open>t\<close> when \<open>isUTC\<close> holds and at the local time \<open>t\<close> otherwise), the engine's
  string of a number, and
  \<^verbatim>\<open>new Date(v).toLocaleTimeString([], {hour: '2-digit', minute: '2-digit'})\<close>, which depends
  on the locale.
\<close>

record env =
  network :: "string \<Rightarrow> exchange"
  now :: int
  LocalTZA :: "int \<Rightarrow> bool \<Rightarrow> int"
  numberToString :: "rat \<Rightarrow> string"
  toLocaleTimeString :: "jsval \<Rightarrow> error + string"

section \<open>Conversion to strings\<close>

fun joinComma :: "string list \<Rightarrow> string" where
  "joinComma [] = []"
| "joinComma [s] = s"
| "joinComma (s # t # ts) = s @ '','' @ joinComma (t # ts)"

text \<open>The string of a value whose conversion does not throw.\<close>

primrec stringOf :: "(rat \<Rightarrow> string) \<Rightarrow> jsval \<Rightarrow> string" where
  "stringOf f JUndefined = ''undefined''"
| "stringOf f JNull = ''null''"
| "stringOf f (JBool b) = (if b then ''true'' else ''false'')"
| "stringOf f (JNum r) = f r"
| "stringOf f (JStr s) = s"
| "stringOf f (JArr xs) =
     joinComma (map (\<lambda>x. if x = JUndefined \<or> x = JNull then [] else stringOf f x) xs)"
| "stringOf f (JObj ps) = ''[object Object]''"

text \<open>\<^verbatim>\<open>${v}\<close> in a template literal.\<close>

definition ToString :: "env \<Rightarrow> jsval \<Rightarrow> error + string" where
  "ToString env v =
     (if throwsToString v then Inl typeError else Inr (stringOf (numberToString env) v))"

text \<open>\<^verbatim>\<open>v.toString()\<close>: there is no method to call on \<^verbatim>\<open>undefined\<close> and \<^verbatim>\<open>null\<close>.\<close>

definition toStringMethod :: "env \<Rightarrow> jsval \<Rightarrow> error + string" where
  "toStringMethod env v =
     (if v = JUndefined \<or> v = JNull then Inl typeError else ToString env v)"

text \<open>
  A template literal: the pieces are evaluated from left to right and concatenated; the
  first conversion that throws ends the evaluation.
\<close>

fun template :: "(error + string) list \<Rightarrow> error + string" where
  "template [] = Inr []"
| "template (p # ps) = andThen p (\<lambda>s. andThen (template ps) (\<lambda>t. Inr (s @ t)))"

text \<open>
  \<^verbatim>\<open>encodeURIComponent\<close>: every code unit but the unreserved ones is written as the
  bytes of its UTF-8 encoding, each as a percent sign and two upper-case hex digits.
\<close>

definition unreserved :: "char \<Rightarrow> bool" where
  "unreserved c \<longleftrightarrow>
     c \<in> set (''ABCDEFGHIJKLMNOPQRSTUVWXYZabcdefghijklmnopqrstuvwxyz0123456789-_.!~*()'' @ [CHR 0x27])"

definition percent :: "nat \<Rightarrow> string" where
  "percent b = [CHR ''%'', ''0123456789ABCDEF'' ! (b div 16), ''0123456789ABCDEF'' ! (b mod 16)]"

definition encodeChar :: "char \<Rightarrow> string" where
  "encodeChar c =
     (let n = (of_char c :: nat) in
      if unreserved c then [c]
      else if n < 128 then percent n
      else percent (192 + n div 64) @ percent (128 + n mod 64))"

definition encodeURIComponent :: "string \<Rightarrow> string" where
  "encodeURIComponent s = concat (map encodeChar s)"

section \<open>Dates\<close>

text \<open>
  The operations of \<^verbatim>\<open>Date\<close> that the program calls, after ECMA-262 (Date objects): a
  time value is a number of milliseconds since 1 January 1970 UTC, a day number is a
  number of days since then. The Gregorian calendar is computed by the usual era
  arithmetic (an era is 400 years, 146097 days, starting on 1 March); months count from 1
  here and from 0 in \<open>MonthFromTime\<close> and \<open>MakeDay\<close>, as in JavaScript.
\<close>

definition msPerDay :: int where
  "msPerDay = 86400000"

definition Day :: "int \<Rightarrow> int" where
  "Day t = t div msPerDay"

definition TimeWithinDay :: "int \<Rightarrow> int" where
  "TimeWithinDay t = t mod msPerDay"

definition civilFromDays :: "int \<Rightarrow> int \<times> int \<times> int" where
  "civilFromDays z =
     (let z' = z + 719468;
          era = z' div 146097;
          doe = z' mod 146097;
          yoe = (doe - doe div 1460 + doe div 36524 - doe div 146096) div 365;
          doy = doe - (365 * yoe + yoe div 4 - yoe div 100);
          mp = (5 * doy + 2) div 153;
          d = doy - (153 * mp + 2) div 5 + 1;
          m = (if mp < 10 then mp + 3 else mp - 9);
          y = yoe + era * 400 + (if m \<le> 2 then 1 else 0)
      in (y, m, d))"

definition daysFromCivil :: "int \<Rightarrow> int \<Rightarrow> int \<Rightarrow> int" where
  "daysFromCivil y m d =
     (let y' = (if m \<le> 2 then y - 1 else y);
          era = y' div 400;
          yoe = y' mod 400;
          doy = (153 * (if m > 2 then m - 3 else m + 9) + 2) div 5 + d - 1;
          doe = yoe * 365 + yoe div 4 - yoe div 100 + doy
      in era * 146097 + doe - 719468)"

definition YearFromTime :: "int \<Rightarrow> int" where
  "YearFromTime t = (case civilFromDays (Day t) of (y, m, d) \<Rightarrow> y)"

definition MonthFromTime :: "int \<Rightarrow> int" where
  "MonthFromTime t = (case civilFromDays (Day t) of (y, m, d) \<Rightarrow> m - 1)"

definition DateFromTime :: "int \<Rightarrow> int" where
  "DateFromTime t = (case civilFromDays (Day t) of (y, m, d) \<Rightarrow> d)"

definition MakeDay :: "int \<Rightarrow> int \<Rightarrow> int \<Rightarrow> int" where
  "MakeDay year month date =
     daysFromCivil (year + month div 12) (month mod 12 + 1) 1 + date - 1"

definition MakeDate :: "int \<Rightarrow> int \<Rightarrow> int" where
  "MakeDate day time = day * msPerDay + time"

text \<open>A time value beyond 100 000 000 days from the epoch is invalid (\<^verbatim>\<open>NaN\<close>): \<open>None\<close>.\<close>

definition TimeClip :: "int \<Rightarrow> int option" where
  "TimeClip t = (if \<bar>t\<bar> \<le> 8640000000000000 then Some t else None)"

definition LocalTime :: "env \<Rightarrow> int \<Rightarrow> int" where
  "LocalTime env t = t + LocalTZA env t True"

definition UTC :: "env \<Rightarrow> int \<Rightarrow> int" where
  "UTC env t = t - LocalTZA env t False"

text \<open>\<^verbatim>\<open>d.getDate()\<close>: the day of the month in local time.\<close>

definition getDate :: "env \<Rightarrow> int \<Rightarrow> int" where
  "getDate env t = DateFromTime (LocalTime env t)"

text \<open>
  \<^verbatim>\<open>d.setDate(dt)\<close>: the day of the month is replaced in local time, a day beyond the end
  of the month running into the next; the result is the new time value.
\<close>

definition setDate :: "env \<Rightarrow> int \<Rightarrow> int \<Rightarrow> int option" where
  "setDate env t dt =
     (let local = LocalTime env t;
          newDate = MakeDate (MakeDay (YearFromTime local) (MonthFromTime local) dt)
                      (TimeWithinDay local)
      in TimeClip (UTC env newDate))"

definition pad :: "nat \<Rightarrow> nat \<Rightarrow> string" where
  "pad w n = replicate (w - length (show_nat n)) CHR ''0'' @ show_nat n"

definition yearString :: "int \<Rightarrow> string" where
  "yearString y =
     (if 0 \<le> y \<and> y \<le> 9999 then pad 4 (nat y)
      else (if y < 0 then ''-'' else ''+'') @ pad 6 (nat \<bar>y\<bar>))"

text \<open>
  \<^verbatim>\<open>d.toISOString()\<close>: the date and the time of day in UTC, whatever the local time zone;
  a RangeError on an invalid time value.
\<close>

definition toISOString :: "int option \<Rightarrow> error + string" where
  "toISOString tv =
     (case tv of
        None \<Rightarrow> Inl rangeError
      | Some t \<Rightarrow>
          (case civilFromDays (Day t) of
             (y, m, d) \<Rightarrow>
               (let ms = TimeWithinDay t in
                Inr (yearString y @ ''-'' @ pad 2 (nat m) @ ''-'' @ pad 2 (nat d) @ ''T''
                     @ pad 2 (nat (ms div 3600000)) @ '':''
                     @ pad 2 (nat (ms div 60000 mod 60)) @ '':''
                     @ pad 2 (nat (ms div 1000 mod 60)) @ ''.''
                     @ pad 3 (nat (ms mod 1000)) @ ''Z''))))"

text \<open>\<^verbatim>\<open>s.split("T")[0]\<close>: what stands before the first \<^verbatim>\<open>T\<close>.\<close>

definition beforeT :: "string \<Rightarrow> string" where
  "beforeT s = takeWhile (\<lambda>c. c \<noteq> CHR ''T'') s"

section \<open>fetchJSON\<close>

text \<open>
  Lines 60 to 63: \<^verbatim>\<open>controller\<close>, the timer that calls \<^verbatim>\<open>controller.abort()\<close> after
  \<^verbatim>\<open>timeout\<close> milliseconds, and \<^verbatim>\<open>await fetch(url, { signal: controller.signal })\<close>. What
  the network does before the timer fires, at a time below \<^verbatim>\<open>timeout\<close>, settles the
  \<^verbatim>\<open>fetch\<close>. Otherwise the timer fires first, the abort cancels the request and the
  \<^verbatim>\<open>fetch\<close> rejects with an \<^verbatim>\<open>AbortError\<close>.
\<close>

definition abortError :: error where
  "abortError = Error ''AbortError'' EngineText"

definition fetchWithin :: "env \<Rightarrow> string \<Rightarrow> nat \<Rightarrow> fetch_outcome" where
  "fetchWithin env url timeout =
     (case network env url of
        Fails t err \<Rightarrow> if t < timeout then Rejected err else Rejected abortError
      | Answers t ok body \<Rightarrow> if t < timeout then Responded ok body else Rejected abortError
      | Silent \<Rightarrow> Rejected abortError)"

text \<open>
  \<^verbatim>\<open>fetchJSON(url, errorMessage, timeout = 5000)\<close> (lines 59 to 76). Once the \<^verbatim>\<open>fetch\<close>
  has settled, the timer is cleared (lines 64 and 70): the \<^verbatim>\<open>try\<close> block throws
  \<^verbatim>\<open>new Error(errorMessage)\<close> when the response is not \<^verbatim>\<open>ok\<close> and else awaits its JSON, on
  which no timer runs any more; the \<^verbatim>\<open>catch\<close> block tells an abort from everything
  else by the name of the error. The result comes with the list of the requests sent.
\<close>

definition fetchJSON ::
  "env \<Rightarrow> string \<Rightarrow> string \<Rightarrow> nat \<Rightarrow> (error + jsval) \<times> string list" where
  "fetchJSON env url errorMessage timeout =
     (let attempt =
            (case fetchWithin env url timeout of
               Rejected err \<Rightarrow> Inl err
             | Responded ok body \<Rightarrow> if \<not> ok then Inl (newError errorMessage) else body)
      in (case attempt of
            Inr json \<Rightarrow> Inr json
          | Inl (Error name msg) \<Rightarrow>
              if name = ''AbortError''
              then Inl (newError ''Request timed out. Please try again later.'')
              else Inl (newError errorMessage)
          | Inl NeverSettles \<Rightarrow> Inl NeverSettles,
          [url]))"

text \<open>
  How the \<^verbatim>\<open>fetch\<close> of a URL ends under the default timeout of 5000 milliseconds, with
  which \<open>getWeather\<close> makes both its calls.
\<close>

definition fetch :: "env \<Rightarrow> string \<Rightarrow> fetch_outcome" where
  "fetch env url = fetchWithin env url 5000"

section \<open>getWeather\<close>

text \<open>The object that \<^verbatim>\<open>getWeather\<close> returns (lines 172 to 180).\<close>

record conditions =
  weatherDescription :: jsval
  iconClass :: jsval

record currentWeather = conditions +
  temperature :: jsval

record forecastDay = conditions +
  date :: jsval
  maxTemp :: jsval
  minTemp :: jsval
  sunrise :: jsval
  sunset :: jsval

record report =
  city :: jsval
  currentWeather :: currentWeather
  forecast :: "forecastDay list"

definition geocodeUrl :: "string \<Rightarrow> string" where
  "geocodeUrl cityName =
     ''https://geocoding-api.open-meteo.com/v1/search?name='' @ encodeURIComponent cityName"

text \<open>
  Lines 119 to 124: the check of \<^verbatim>\<open>geocodeData.results\<close> and the destructuring of its
  first element into \<^verbatim>\<open>latitude\<close>, \<^verbatim>\<open>longitude\<close> and \<^verbatim>\<open>name\<close>.
\<close>

definition firstResult :: "jsval \<Rightarrow> error + jsval \<times> jsval \<times> jsval" where
  "firstResult geocodeData =
     andThen (getProp geocodeData ''results'') (\<lambda>results.
       if \<not> truthy results then Inl (newError ''City not found. Please enter a valid city name.'')
       else andThen (getProp results ''length'') (\<lambda>len.
         if len = JNum 0 then Inl (newError ''City not found. Please enter a valid city name.'')
         else andThen (getIndex results 0) (\<lambda>first.
           andThen (getProp first ''latitude'') (\<lambda>latitude.
           andThen (getProp first ''longitude'') (\<lambda>longitude.
           andThen (getProp first ''name'') (\<lambda>name.
             Inr (latitude, longitude, name)))))))"

text \<open>Lines 127 to 131: \<^verbatim>\<open>startDate\<close> and \<^verbatim>\<open>endDate\<close>.\<close>

definition dateRange :: "env \<Rightarrow> error + string \<times> string" where
  "dateRange env =
     (let today = TimeClip (now env) in
      andThen (toISOString today) (\<lambda>iso.
        let startDate = beforeT iso;
            endDateObj = (case today of None \<Rightarrow> None
                          | Some t \<Rightarrow> setDate env t (getDate env t + 4))
        in andThen (toISOString endDateObj) (\<lambda>iso'.
             Inr (startDate, beforeT iso'))))"

text \<open>Lines 134 to 139.\<close>

definition weatherUrl :: "env \<Rightarrow> jsval \<Rightarrow> jsval \<Rightarrow> string \<Rightarrow> string \<Rightarrow> error + string" where
  "weatherUrl env latitude longitude startDate endDate =
     template
       [Inr ''https://api.open-meteo.com/v1/forecast?latitude='', ToString env latitude,
        Inr ''&longitude='', ToString env longitude,
        Inr ''&current_weather=true'',
        Inr ''&daily=weathercode,temperature_2m_max,temperature_2m_min,sunrise,sunset'',
        Inr ''&timezone=auto&start_date='', Inr startDate, Inr ''&end_date='', Inr endDate]"

text \<open>The callback of \<^verbatim>\<open>weatherData.daily.time.map\<close> (lines 156 to 169).\<close>

definition forecastEntry :: "jsval \<Rightarrow> jsval \<Rightarrow> nat \<Rightarrow> error + forecastDay" where
  "forecastEntry daily d index =
     andThen (getProp daily ''weathercode'') (\<lambda>codes.
     andThen (getIndex codes index) (\<lambda>fcWeatherCode.
     andThen (weatherInfo fcWeatherCode) (\<lambda>(description, icon).
     andThen (getProp daily ''temperature_2m_max'') (\<lambda>maxs.
     andThen (getIndex maxs index) (\<lambda>maxT.
     andThen (getProp daily ''temperature_2m_min'') (\<lambda>mins.
     andThen (getIndex mins index) (\<lambda>minT.
     andThen (getProp daily ''sunrise'') (\<lambda>rises.
     andThen (getIndex rises index) (\<lambda>rise.
     andThen (getProp daily ''sunset'') (\<lambda>sets.
     andThen (getIndex sets index) (\<lambda>down.
       Inr \<lparr>weatherDescription = description, iconClass = icon, date = d,
            maxTemp = maxT, minTemp = minT, sunrise = rise, sunset = down\<rparr>)))))))))))"

text \<open>\<^verbatim>\<open>xs.map((x, index) => ...)\<close> from the index \<open>i\<close> on: in order, until a call throws.\<close>

fun mapIndexed :: "('a \<Rightarrow> nat \<Rightarrow> error + 'b) \<Rightarrow> 'a list \<Rightarrow> nat \<Rightarrow> error + 'b list" where
  "mapIndexed f [] i = Inr []"
| "mapIndexed f (x # xs) i =
     andThen (f x i) (\<lambda>y. andThen (mapIndexed f xs (Suc i)) (\<lambda>ys. Inr (y # ys)))"

text \<open>
  Lines 143 to 180: the two checks, the current weather, the forecast and the result.
  \<^verbatim>\<open>map\<close> is a method of arrays only; on anything else the call throws a TypeError.
\<close>

definition buildReport :: "jsval \<Rightarrow> jsval \<Rightarrow> error + report" where
  "buildReport name weatherData =
     andThen (getProp weatherData ''current_weather'') (\<lambda>current.
       if \<not> truthy current
       then Inl (newError ''Current weather data not available at the moment.'')
       else andThen (getProp weatherData ''daily'') (\<lambda>daily.
         if \<not> truthy daily
         then Inl (newError ''Forecast data not available at the moment.'')
         else andThen (getProp current ''temperature'') (\<lambda>temp.
              andThen (getProp current ''weathercode'') (\<lambda>weathercode.
              andThen (weatherInfo weathercode) (\<lambda>(description, icon).
              andThen (getProp daily ''time'') (\<lambda>timeArray.
                case timeArray of
                  JArr ts \<Rightarrow>
                    andThen (mapIndexed (forecastEntry daily) ts 0) (\<lambda>forecastArray.
                      Inr \<lparr>city = name,
                           currentWeather = \<lparr>weatherDescription = description,
                                             iconClass = icon, temperature = temp\<rparr>,
                           forecast = forecastArray\<rparr>)
                | _ \<Rightarrow> Inl typeError))))))"

text \<open>
  Lines 119 to 139: from the decoded answer of the geocoder to the \<^verbatim>\<open>name\<close> and the
  \<^verbatim>\<open>weatherUrl\<close>.
\<close>

definition forecastRequest :: "env \<Rightarrow> jsval \<Rightarrow> error + jsval \<times> string" where
  "forecastRequest env geocodeData =
     andThen (firstResult geocodeData) (\<lambda>(latitude, longitude, name).
     andThen (dateRange env) (\<lambda>(startDate, endDate).
     andThen (weatherUrl env latitude longitude startDate endDate) (\<lambda>url.
       Inr (name, url))))"

text \<open>
  \<^verbatim>\<open>catch (error) { throw new Error(error.message); }\<close> (lines 182 to 184); it does not
  run when an \<^verbatim>\<open>await\<close> of the \<^verbatim>\<open>try\<close> block never settles.
\<close>

fun rethrow :: "error \<Rightarrow> error" where
  "rethrow (Error name msg) = Error ''Error'' msg"
| "rethrow NeverSettles = NeverSettles"

text \<open>
  \<^verbatim>\<open>getWeather(city)\<close> (lines 109 to 185), with the list of the requests sent. \<^verbatim>\<open>!city\<close>
  holds of the empty string only. Both calls of \<^verbatim>\<open>fetchJSON\<close> leave the timeout to its
  default, 5000.
\<close>

definition getWeather :: "env \<Rightarrow> string \<Rightarrow> (error + report) \<times> string list" where
  "getWeather env cityName =
     (if cityName = [] then (Inl (newError ''City name is required.''), [])
      else
        (case fetchJSON env (geocodeUrl cityName)
                ''Failed to fetch geocode data. Please try again later.'' 5000 of
           (geocodeData, sent) \<Rightarrow>
             (case andThen geocodeData (forecastRequest env) of
                Inl err \<Rightarrow> (Inl (rethrow err), sent)
              | Inr (name, url) \<Rightarrow>
                  (case fetchJSON env url
                          ''Failed to fetch weather data. Please try again later.'' 5000 of
                     (weatherData, sent') \<Rightarrow>
                       (case andThen weatherData (buildReport name) of
                          Inl err \<Rightarrow> Inl (rethrow err)
                        | Inr result \<Rightarrow> Inr result,
                        sent @ sent')))))"

section \<open>The submit handler\<close>

text \<open>\<^verbatim>\<open>escapeHtml(text)\<close> (lines 39 to 48).\<close>

definition escapeChar :: "char \<Rightarrow> string" where
  \<open>escapeChar m =
     (if m = CHR ''&'' then ''&amp;''
      else if m = CHR ''<'' then ''&lt;''
      else if m = CHR ''>'' then ''&gt;''
      else if m = CHR 0x22 then ''&quot;''
      else if m = CHR 0x27 then ''&#039;''
      else [m])\<close>

definition escapeHtml :: "env \<Rightarrow> jsval \<Rightarrow> error + string" where
  "escapeHtml env text =
     andThen (toStringMethod env text) (\<lambda>s. Inr (concat (map escapeChar s)))"

text \<open>
  \<^verbatim>\<open>value.trim()\<close>: white space and line terminators are removed at both ends. Among the
  code units below 256 these are tab, line feed, vertical tab, form feed, carriage
  return, space and no-break space.
\<close>

definition isWhiteSpace :: "char \<Rightarrow> bool" where
  "isWhiteSpace c \<longleftrightarrow> (of_char c :: nat) \<in> {9, 10, 11, 12, 13, 32, 160}"

definition trim :: "string \<Rightarrow> string" where
  "trim s = rev (dropWhile isWhiteSpace (rev (dropWhile isWhiteSpace s)))"

text \<open>The markup of the current weather (lines 203 to 210).\<close>

definition renderCurrent :: "env \<Rightarrow> string \<Rightarrow> currentWeather \<Rightarrow> error + string" where
  \<open>renderCurrent env safeCity current =
     template
       [Inr ''<h2>Weather in '', Inr safeCity, Inr ''</h2>'',
        Inr ''\<newline>      <div class="current-weather">\<newline>        <i class="wi '',
        ToString env (iconClass current),
        Inr ''" style="font-size: 80px;"></i>\<newline>        <p>Temperature: '',
        ToString env (temperature current),
        Inr ([CHR 0xB0] @ ''C</p>\<newline>        <p>Conditions: ''),
        ToString env (weatherDescription current),
        Inr ''</p>\<newline>      </div>\<newline>    '']\<close>

text \<open>The markup of one day (lines 216 to 225).\<close>

definition renderDay :: "env \<Rightarrow> forecastDay \<Rightarrow> error + string" where
  \<open>renderDay env day =
     template
       [Inr ''\<newline>        <div class="forecast-day">\<newline>          <h4>'',
        ToString env (date day),
        Inr ''</h4>\<newline>          <i class="wi '',
        ToString env (iconClass day),
        Inr ''" style="font-size: 48px;"></i>\<newline>          <p>Max: '',
        ToString env (maxTemp day),
        Inr ([CHR 0xB0] @ ''C, Min: ''),
        ToString env (minTemp day),
        Inr ([CHR 0xB0] @ ''C</p>\<newline>          <p>Sunrise: ''),
        toLocaleTimeString env (sunrise day),
        Inr ''</p>\<newline>          <p>Sunset: '',
        toLocaleTimeString env (sunset day),
        Inr ''</p>\<newline>          <p>'',
        ToString env (weatherDescription day),
        Inr ''</p>\<newline>        </div>\<newline>      '']\<close>

text \<open>Lines 200 to 227: the value that is assigned to \<^verbatim>\<open>innerHTML\<close>.\<close>

definition render :: "env \<Rightarrow> report \<Rightarrow> error + string" where
  \<open>render env weatherData =
     andThen (escapeHtml env (city weatherData)) (\<lambda>safeCity.
       template
         ([renderCurrent env safeCity (currentWeather weatherData),
           Inr ''<h3>5-Day Forecast</h3>'',
           Inr ''<div class="forecast-container">'']
          @ map (renderDay env) (forecast weatherData)
          @ [Inr ''</div>'']))\<close>

text \<open>
  What the result area shows in the end: the markup assigned to \<^verbatim>\<open>innerHTML\<close>, or the
  text \<^verbatim>\<open>Error: \<close> followed by the message of the error, assigned to \<^verbatim>\<open>textContent\<close>,
  or still the text \<^verbatim>\<open>Loading...\<close> of line 193 when \<^verbatim>\<open>getWeather\<close> never settles.
\<close>

datatype display = InnerHTML string | ErrorText message | Loading

text \<open>The listener of the form (lines 188 to 234), on the value of the input field.\<close>

definition submit :: "env \<Rightarrow> string \<Rightarrow> display \<times> string list" where
  "submit env input =
     (let cityInput = trim input in
      case getWeather env cityInput of
        (weatherData, sent) \<Rightarrow>
          (case andThen weatherData (render env) of
             Inr html \<Rightarrow> InnerHTML html
           | Inl (Error name msg) \<Rightarrow> ErrorText msg
           | Inl NeverSettles \<Rightarrow> Loading,
           sent))"

section \<open>Scenarios\<close>

text \<open>
  The answers of the two services in the scenario of the specification: the geocoder
  knows Paris, the forecast has the current weather (code 2) and five days.
\<close>

definition parisGeocode :: jsval where
  "parisGeocode =
     JObj [(''results'',
            JArr [JObj [(''latitude'', JNum 48.8566), (''longitude'', JNum 2.3522),
                        (''name'', JStr ''Paris'')]])]"

definition parisDaily :: jsval where
  "parisDaily =
     JObj [(''time'', JArr [JStr ''2024-03-01'', JStr ''2024-03-02'', JStr ''2024-03-03'',
                          JStr ''2024-03-04'', JStr ''2024-03-05'']),
           (''weathercode'', JArr [JNum 2, JNum 61, JNum 3, JNum 0, JNum 45]),
           (''temperature_2m_max'', JArr [JNum 19, JNum 17, JNum 16, JNum 18, JNum 15]),
           (''temperature_2m_min'', JArr [JNum 9, JNum 8, JNum 7, JNum 10, JNum 6]),
           (''sunrise'', JArr [JStr ''2024-03-01T07:31'', JStr ''2024-03-02T07:29'',
                             JStr ''2024-03-03T07:27'', JStr ''2024-03-04T07:25'',
                             JStr ''2024-03-05T07:23'']),
           (''sunset'', JArr [JStr ''2024-03-01T18:31'', JStr ''2024-03-02T18:33'',
                            JStr ''2024-03-03T18:34'', JStr ''2024-03-04T18:36'',
                            JStr ''2024-03-05T18:37''])]"

definition parisForecast :: jsval where
  "parisForecast =
     JObj [(''current_weather'', JObj [(''temperature'', JNum 18.4), (''weathercode'', JNum 2)]),
           (''daily'', parisDaily)]"

text \<open>
  A network in which the geocoder answers \<open>g\<close> after 120 milliseconds and the forecast
  service \<open>w\<close> after 250.
\<close>

definition answering :: "jsval \<Rightarrow> jsval \<Rightarrow> string \<Rightarrow> exchange" where
  "answering g w url =
     (if take 36 url = ''https://geocoding-api.open-meteo.com'' then Answers 120 True (Inr g)
      else Answers 250 True (Inr w))"

text \<open>The engine's strings of the numbers of the scenario.\<close>

definition sampleNumberToString :: "rat \<Rightarrow> string" where
  "sampleNumberToString r =
     (if r = 48.8566 then ''48.8566'' else if r = 2.3522 then ''2.3522''
      else if r = 18.4 then ''18.4'' else show_nat (nat \<lfloor>r\<rfloor>))"

text \<open>
  A browser on UTC, on 1 March 2024 at 12:00, for which the geocoder knows Paris and the
  forecast service answers \<open>w\<close>; it shows the time of day of a timestamp string.
\<close>

definition browser :: "jsval \<Rightarrow> env" where
  "browser w =
     \<lparr>network = answering parisGeocode w, now = 1709294400000, LocalTZA = (\<lambda>t isUTC. 0),
      numberToString = sampleNumberToString,
      toLocaleTimeString = (\<lambda>v. Inr (case v of JStr s \<Rightarrow> drop 11 s | _ \<Rightarrow> ''Invalid Date''))\<rparr>"

definition parisEnv :: env where
  "parisEnv = browser parisForecast"

definition parisUrl :: string where
  "parisUrl = ''https://api.open-meteo.com/v1/forecast?latitude=48.8566&longitude=2.3522&current_weather=true&daily=weathercode,temperature_2m_max,temperature_2m_min,sunrise,sunset&timezone=auto&start_date=2024-03-01&end_date=2024-03-05''"

definition parisReport :: report where
  "parisReport =
     \<lparr>city = JStr ''Paris'',
      currentWeather = \<lparr>weatherDescription = JStr ''Partly cloudy'',
                        iconClass = JStr ''wi-day-cloudy'', temperature = JNum 18.4\<rparr>,
      forecast =
        [\<lparr>weatherDescription = JStr ''Partly cloudy'', iconClass = JStr ''wi-day-cloudy'',
          date = JStr ''2024-03-01'', maxTemp = JNum 19, minTemp = JNum 9,
          sunrise = JStr ''2024-03-01T07:31'', sunset = JStr ''2024-03-01T18:31''\<rparr>,
         \<lparr>weatherDescription = JStr ''Slight rain'', iconClass = JStr ''wi-sprinkle'',
          date = JStr ''2024-03-02'', maxTemp = JNum 17, minTemp = JNum 8,
          sunrise = JStr ''2024-03-02T07:29'', sunset = JStr ''2024-03-02T18:33''\<rparr>,
         \<lparr>weatherDescription = JStr ''Overcast'', iconClass = JStr ''wi-cloudy'',
          date = JStr ''2024-03-03'', maxTemp = JNum 16, minTemp = JNum 7,
          sunrise = JStr ''2024-03-03T07:27'', sunset = JStr ''2024-03-03T18:34''\<rparr>,
         \<lparr>weatherDescription = JStr ''Clear sky'', iconClass = JStr ''wi-day-sunny'',
          date = JStr ''2024-03-04'', maxTemp = JNum 18, minTemp = JNum 10,
          sunrise = JStr ''2024-03-04T07:25'', sunset = JStr ''2024-03-04T18:36''\<rparr>,
         \<lparr>weatherDescription = JStr ''Fog'', iconClass = JStr ''wi-fog'',
          date = JStr ''2024-03-05'', maxTemp = JNum 15, minTemp = JNum 6,
          sunrise = JStr ''2024-03-05T07:23'', sunset = JStr ''2024-03-05T18:37''\<rparr>]\<rparr>"

text \<open>
  A browser ten hours ahead of UTC (Brisbane), on 2 March 2024 at 08:00 local time, which
  is 1 March 2024 at 22:00 UTC.
\<close>

definition brisbaneEnv :: env where
  "brisbaneEnv =
     (browser parisForecast)\<lparr>now := 1709330400000, LocalTZA := (\<lambda>t isUTC. 36000000)\<rparr>"

text \<open>
  A browser in Paris on 30 March 2024 at 01:30 local time (00:30 UTC), the day before
  summer time begins: local time is one hour ahead of UTC until 31 March 2024, 01:00 UTC,
  and two hours from then on; a local time in the hour that is skipped counts with the
  offset before the change.
\<close>

definition summerTimeEnv :: env where
  "summerTimeEnv =
     (browser parisForecast)
       \<lparr>now := 1711758600000,
        LocalTZA := (\<lambda>t isUTC.
          if isUTC then (if t < 1711846800000 then 3600000 else 7200000)
          else (if t < 1711854000000 then 3600000 else 7200000))\<rparr>"

text \<open>A forecast without the current weather.\<close>

definition noCurrentForecast :: jsval where
  "noCurrentForecast = JObj [(''daily'', parisDaily)]"

text \<open>A forecast whose daily block has no \<^verbatim>\<open>time\<close>.\<close>

definition noTimeForecast :: jsval where
  "noTimeForecast =
     JObj [(''current_weather'', JObj [(''temperature'', JNum 18.4), (''weathercode'', JNum 2)]),
           (''daily'', JObj [(''weathercode'', JArr [JNum 2, JNum 61, JNum 3, JNum 0, JNum 45])])]"

text \<open>A forecast of three days whose other arrays are shorter or longer.\<close>

definition raggedDaily :: jsval where
  "raggedDaily =
     JObj [(''time'', JArr [JStr ''2024-03-01'', JStr ''2024-03-02'', JStr ''2024-03-03'']),
           (''weathercode'', JArr [JNum 2]),
           (''temperature_2m_max'', JArr [JNum 19, JNum 17, JNum 16, JNum 18, JNum 15]),
           (''temperature_2m_min'', JArr []),
           (''sunrise'', JArr [JStr ''2024-03-01T07:31'', JStr ''2024-03-02T07:29'',
                             JStr ''2024-03-03T07:27'']),
           (''sunset'', JArr [JStr ''2024-03-01T18:31'', JStr ''2024-03-02T18:33''])]"

definition raggedForecast :: jsval where
  "raggedForecast =
     JObj [(''current_weather'', JObj [(''temperature'', JNum 18.4), (''weathercode'', JNum 2)]),
           (''daily'', raggedDaily)]"

text \<open>A forecast of one day whose date is markup.\<close>

definition markupForecast :: jsval where
  "markupForecast =
     JObj [(''current_weather'', JObj [(''temperature'', JNum 18.4), (''weathercode'', JNum 2)]),
           (''daily'',
            JObj [(''time'', JArr [JStr ''<script>alert(1)</script>'']),
                  (''weathercode'', JArr [JNum 2]),
                  (''temperature_2m_max'', JArr [JNum 19]),
                  (''temperature_2m_min'', JArr [JNum 9]),
                  (''sunrise'', JArr [JStr ''2024-03-01T07:31'']),
                  (''sunset'', JArr [JStr ''2024-03-01T18:31''])])]"

definition markupEnv :: env where
  "markupEnv = browser markupForecast"

section \<open>Auxiliary notions\<close>

text \<open>The environment in which the network does \<open>x\<close> with the request of \<open>url\<close>.\<close>

definition withNetwork :: "env \<Rightarrow> string \<Rightarrow> exchange \<Rightarrow> env" where
  "withNetwork env url x = env\<lparr>network := (network env)(url := x)\<rparr>"

text \<open>\<^verbatim>\<open>xs[i]\<close> on the elements of an array.\<close>

definition element :: "jsval list \<Rightarrow> nat \<Rightarrow> jsval" where
  "element xs i = (if i < length xs then xs ! i else JUndefined)"

text \<open>
  The object that the callback of \<^verbatim>\<open>map\<close> returns at index \<open>i\<close> when all six daily
  arrays are present and the lookup of the code does not throw.
\<close>

definition entryOf ::
  "jsval list \<Rightarrow> jsval list \<Rightarrow> jsval list \<Rightarrow> jsval list \<Rightarrow> jsval list \<Rightarrow> jsval list \<Rightarrow> nat
     \<Rightarrow> forecastDay" where
  "entryOf ts codes maxs mins rises sets i =
     \<lparr>weatherDescription = fst (projr (weatherInfo (element codes i))),
      iconClass = snd (projr (weatherInfo (element codes i))),
      date = ts ! i, maxTemp = element maxs i, minTemp = element mins i,
      sunrise = element rises i, sunset = element sets i\<rparr>"

section \<open>Decimal strings\<close>

lemma show_nat_nonempty: "show_nat n \<noteq> []"
  by (subst show_nat.simps) simp

lemma digit_inj:
  "a < 10 \<Longrightarrow> b < 10 \<Longrightarrow> (char_of (48 + a) :: char) = char_of (48 + b) \<Longrightarrow> a = (b::nat)"
  by (simp add: char_of_eq_iff take_bit_eq_mod)

lemma show_nat_inj: "show_nat m = show_nat n \<Longrightarrow> m = n"
proof (induction m arbitrary: n rule: show_nat.induct)
  case (1 m)
  show ?case
  proof (cases "m < 10")
    case small: True
    show ?thesis
    proof (cases "n < 10")
      case True
      with small "1.prems" show ?thesis
        by (simp add: show_nat.simps [of m] show_nat.simps [of n] digit_inj)
    next
      case False
      with small "1.prems" show ?thesis
        by (simp add: show_nat.simps [of m] show_nat.simps [of n]
            show_nat_nonempty [THEN not_sym])
    qed
  next
    case large: False
    show ?thesis
    proof (cases "n < 10")
      case True
      with large "1.prems" show ?thesis
        by (simp add: show_nat.simps [of m] show_nat.simps [of n] show_nat_nonempty)
    next
      case False
      with large "1.prems" have "show_nat (m div 10) = show_nat (n div 10)"
        and d: "(char_of (48 + m mod 10) :: char) = char_of (48 + n mod 10)"
        by (simp_all add: show_nat.simps [of m] show_nat.simps [of n])
      with large "1.IH" have "m div 10 = n div 10" by simp
      moreover from d have "m mod 10 = n mod 10" by (intro digit_inj) simp_all
      ultimately show ?thesis by (metis div_mult_mod_eq)
    qed
  qed
qed

lemma show_nat_hd: "of_char (hd (show_nat n)) \<in> {48 .. 57 :: nat}"
proof (induction n rule: show_nat.induct)
  case (1 n)
  show ?case
  proof (cases "n < 10")
    case True
    then show ?thesis by (simp add: show_nat.simps [of n])
  next
    case False
    with 1 show ?thesis by (simp add: show_nat.simps [of n] show_nat_nonempty)
  qed
qed

section \<open>The lookup of a weather code\<close>

lemma show_nat_not_inherited: "show_nat n \<notin> set objectPrototypeNames"
proof
  assume "show_nat n \<in> set objectPrototypeNames"
  then have "of_char (hd (show_nat n)) \<in> {99, 104, 105, 112, 116, 118, 95 :: nat}"
    unfolding objectPrototypeNames_def by auto
  with show_nat_hd [of n] show False by auto
qed

lemma show_nat_not_minus: "show_nat n \<noteq> CHR ''-'' # s"
proof
  assume "show_nat n = CHR ''-'' # s"
  then have "of_char (hd (show_nat n)) = (45 :: nat)" by simp
  with show_nat_hd [of n] show False by auto
qed

lemma ownProperties_keys: "fst ` set ownProperties = show_nat ` set knownCodes"
  by (simp add: ownProperties_def knownCodes_def image_image split_def)

lemma ownProperties_None:
  "map_of ownProperties (show_nat n) = None \<longleftrightarrow> n \<notin> set knownCodes"
  using ownProperties_keys by (auto simp: map_of_eq_None_iff dest: show_nat_inj)

lemma minus_not_own: "map_of ownProperties (CHR ''-'' # s) = None"
  using ownProperties_keys show_nat_not_minus [THEN not_sym]
  by (auto simp: map_of_eq_None_iff)

lemma minus_not_inherited: "CHR ''-'' # s \<notin> set objectPrototypeNames"
  by (simp add: objectPrototypeNames_def)

text \<open>
  C1, as the code has it. For every integer weather code outside the codes of the table,
  the lookup gives the description "Unknown condition" and the icon class "wi-na" (the
  class of the icon font for "not available"); \<open>buildReport\<close> and \<open>forecastEntry\<close>
  resolve the current code and each daily code by this lookup.
\<close>

theorem unknown_code_fallback:
  "n \<notin> int ` set knownCodes \<Longrightarrow>
   weatherInfo (JNum (of_int n)) = Inr (JStr ''Unknown condition'', JStr ''wi-na'')"
proof (cases "n < 0")
  case True
  then show ?thesis
    by (simp add: weatherInfo_def minus_not_own minus_not_inherited split: option.splits)
next
  case False
  assume "n \<notin> int ` set knownCodes"
  with False have "nat n \<notin> set knownCodes"
    by (metis image_eqI int_nat_eq not_le)
  with False show ?thesis
    by (simp add: weatherInfo_def ownProperties_None [THEN iffD2] show_nat_not_inherited
        split: option.splits)
qed

theorem unknown_code_fallback_witness:
  "(4::int) \<notin> int ` set knownCodes \<and>
   weatherInfo (JNum 4) = Inr (JStr ''Unknown condition'', JStr ''wi-na'')"
proof -
  have h: "(4::int) \<notin> int ` set knownCodes"
    by (simp add: knownCodes_def weatherIcons_def)
  from unknown_code_fallback [OF h] show ?thesis using h by simp
qed

text \<open>The icon of the fallback is not the string "not-available": code 4.\<close>

theorem not_available_counterexample:
  "weatherInfo (JNum 4) \<noteq> Inr (JStr ''Unknown condition'', JStr ''not-available'')"
  by code_simp

section \<open>The scenarios, evaluated\<close>

lemma browser_request: "forecastRequest (browser w) parisGeocode = Inr (JStr ''Paris'', parisUrl)"
  by code_simp

lemma browser_geocode: "fetch (browser w) (geocodeUrl ''Paris'') = Responded True (Inr parisGeocode)"
  by code_simp

lemma browser_forecast: "fetch (browser w) parisUrl = Responded True (Inr w)"
  by code_simp

lemma paris_build: "buildReport (JStr ''Paris'') parisForecast = Inr parisReport"
  by code_simp


section \<open>getWeather, step by step\<close>

lemma fetchJSON_ok:
  "fetch env url = Responded True (Inr json) \<Longrightarrow> fetchJSON env url msg 5000 = (Inr json, [url])"
  by (simp add: fetchJSON_def fetch_def)

lemma getWeather_forecast:
  assumes "cityName \<noteq> []"
    and "fetch env (geocodeUrl cityName) = Responded True (Inr geocodeData)"
    and "forecastRequest env geocodeData = Inr (name, url)"
    and "fetch env url = Responded True (Inr weatherData)"
  shows "getWeather env cityName =
    (case buildReport name weatherData of Inl err \<Rightarrow> Inl (rethrow err) | Inr result \<Rightarrow> Inr result,
     [geocodeUrl cityName, url])"
  using assms by (simp add: getWeather_def fetchJSON_ok)

text \<open>
  C7. When the geocoder has answered and the decoded forecast has no \<^verbatim>\<open>current_weather\<close>,
  \<open>getWeather\<close> fails with the message "Current weather data not available at the
  moment.", whatever the rest of the forecast (its \<^verbatim>\<open>daily\<close> block included) holds; the
  result is the error and no report.
\<close>

theorem missing_current_weather:
  assumes "cityName \<noteq> []"
    and "fetch env (geocodeUrl cityName) = Responded True (Inr geocodeData)"
    and "forecastRequest env geocodeData = Inr (name, url)"
    and "fetch env url = Responded True (Inr weatherData)"
    and "getProp weatherData ''current_weather'' = Inr JUndefined"
  shows "getWeather env cityName =
    (Inl (newError ''Current weather data not available at the moment.''),
     [geocodeUrl cityName, url])"
  using assms(5) by (simp add: getWeather_forecast [OF assms(1-4)] buildReport_def newError_def)

theorem missing_current_weather_witness:
  "''Paris'' \<noteq> []
   \<and> fetch (browser noCurrentForecast) (geocodeUrl ''Paris'') = Responded True (Inr parisGeocode)
   \<and> forecastRequest (browser noCurrentForecast) parisGeocode = Inr (JStr ''Paris'', parisUrl)
   \<and> fetch (browser noCurrentForecast) parisUrl = Responded True (Inr noCurrentForecast)
   \<and> getProp noCurrentForecast ''current_weather'' = Inr JUndefined
   \<and> getWeather (browser noCurrentForecast) ''Paris'' =
       (Inl (newError ''Current weather data not available at the moment.''),
        [geocodeUrl ''Paris'', parisUrl])"
proof -
  have h1: "''Paris'' \<noteq> []" by simp
  have h5: "getProp noCurrentForecast ''current_weather'' = Inr JUndefined"
    by (simp add: noCurrentForecast_def)
  show ?thesis
    by (intro conjI h1 browser_geocode browser_request browser_forecast h5
        missing_current_weather [OF h1 browser_geocode browser_request browser_forecast h5])
qed

lemma weatherInfo_cases:
  "weatherInfo code = Inl typeError \<or> (\<exists>p. weatherInfo code = Inr p)"
  by (simp add: weatherInfo_def split: option.splits prod.splits)

lemma buildReport_no_map:
  assumes "getProp weatherData ''current_weather'' = Inr current" and "truthy current"
    and "getProp weatherData ''daily'' = Inr daily" and "truthy daily"
    and "getProp daily ''time'' = Inr tm" and "\<forall>ts. tm \<noteq> JArr ts"
  shows "buildReport name weatherData = Inl typeError"
proof -
  obtain temp where t: "getProp current ''temperature'' = Inr temp"
    using assms(2) by (cases current) simp_all
  obtain code where c: "getProp current ''weathercode'' = Inr code"
    using assms(2) by (cases current) simp_all
  from weatherInfo_cases [of code] show ?thesis
  proof
    assume "weatherInfo code = Inl typeError"
    with assms t c show ?thesis by (simp add: buildReport_def)
  next
    assume "\<exists>p. weatherInfo code = Inr p"
    then obtain p where "weatherInfo code = Inr p" ..
    with assms t c show ?thesis
      by (cases tm) (simp_all add: buildReport_def split: prod.splits)
  qed
qed

text \<open>
  C10. When the forecast has a current weather and a daily block, but the daily block has
  no \<^verbatim>\<open>time\<close>, both checks pass and \<open>getWeather\<close> fails all the same: the call of
  \<^verbatim>\<open>map\<close> throws a TypeError, which the handler at the end rethrows as an Error with the
  engine's message. No report is returned.
\<close>

theorem missing_time_array:
  assumes "cityName \<noteq> []"
    and "fetch env (geocodeUrl cityName) = Responded True (Inr geocodeData)"
    and "forecastRequest env geocodeData = Inr (name, url)"
    and "fetch env url = Responded True (Inr weatherData)"
    and "getProp weatherData ''current_weather'' = Inr current" and "truthy current"
    and "getProp weatherData ''daily'' = Inr daily" and "truthy daily"
    and "getProp daily ''time'' = Inr JUndefined"
  shows "getWeather env cityName = (Inl (Error ''Error'' EngineText), [geocodeUrl cityName, url])"
proof -
  have "buildReport name weatherData = Inl typeError"
    by (rule buildReport_no_map [OF assms(5-9)]) simp
  then show ?thesis
    by (simp add: getWeather_forecast [OF assms(1-4)] typeError_def)
qed


theorem missing_time_array_witness:
  "''Paris'' \<noteq> []
   \<and> fetch (browser noTimeForecast) (geocodeUrl ''Paris'') = Responded True (Inr parisGeocode)
   \<and> forecastRequest (browser noTimeForecast) parisGeocode = Inr (JStr ''Paris'', parisUrl)
   \<and> fetch (browser noTimeForecast) parisUrl = Responded True (Inr noTimeForecast)
   \<and> getProp noTimeForecast ''current_weather'' =
       Inr (JObj [(''temperature'', JNum 18.4), (''weathercode'', JNum 2)])
   \<and> truthy (JObj [(''temperature'', JNum 18.4), (''weathercode'', JNum 2)])
   \<and> getProp noTimeForecast ''daily'' =
       Inr (JObj [(''weathercode'', JArr [JNum 2, JNum 61, JNum 3, JNum 0, JNum 45])])
   \<and> truthy (JObj [(''weathercode'', JArr [JNum 2, JNum 61, JNum 3, JNum 0, JNum 45])])
   \<and> getProp (JObj [(''weathercode'', JArr [JNum 2, JNum 61, JNum 3, JNum 0, JNum 45])]) ''time'' =
       Inr JUndefined
   \<and> getWeather (browser noTimeForecast) ''Paris'' =
       (Inl (Error ''Error'' EngineText), [geocodeUrl ''Paris'', parisUrl])"
proof -
  have h1: "''Paris'' \<noteq> []" by simp
  have h5: "getProp noTimeForecast ''current_weather'' =
      Inr (JObj [(''temperature'', JNum 18.4), (''weathercode'', JNum 2)])"
    by (simp add: noTimeForecast_def)
  have h6: "truthy (JObj [(''temperature'', JNum 18.4), (''weathercode'', JNum 2)])" by simp
  have h7: "getProp noTimeForecast ''daily'' =
      Inr (JObj [(''weathercode'', JArr [JNum 2, JNum 61, JNum 3, JNum 0, JNum 45])])"
    by (simp add: noTimeForecast_def)
  have h8: "truthy (JObj [(''weathercode'', JArr [JNum 2, JNum 61, JNum 3, JNum 0, JNum 45])])"
    by simp
  have h9: "getProp (JObj [(''weathercode'', JArr [JNum 2, JNum 61, JNum 3, JNum 0, JNum 45])])
      ''time'' = Inr JUndefined"
    by simp
  show ?thesis
    by (intro conjI h1 browser_geocode browser_request browser_forecast h5 h6 h7 h8 h9
        missing_time_array [OF h1 browser_geocode browser_request browser_forecast h5 h6 h7 h8 h9])
qed


lemma mapIndexed_ok:
  "(\<And>j. j < length xs \<Longrightarrow> f (xs ! j) (i + j) = Inr (g (xs ! j) (i + j))) \<Longrightarrow>
   mapIndexed f xs i = Inr (map (\<lambda>j. g (xs ! j) (i + j)) [0..<length xs])"
proof (induction xs arbitrary: i)
  case Nil
  show ?case by simp
next
  case (Cons x xs)
  have hd: "f x i = Inr (g x i)"
    using Cons.prems [of 0] by simp
  have "\<And>j. j < length xs \<Longrightarrow> f (xs ! j) (Suc i + j) = Inr (g (xs ! j) (Suc i + j))"
    using Cons.prems [of "Suc _"] by simp
  then have tl: "mapIndexed f xs (Suc i) =
      Inr (map (\<lambda>j. g (xs ! j) (Suc i + j)) [0..<length xs])"
    by (rule Cons.IH)
  have "map (\<lambda>j. g ((x # xs) ! j) (i + j)) [0..<length (x # xs)] =
      g x i # map (\<lambda>j. g (xs ! j) (Suc i + j)) [0..<length xs]"
    by (simp add: upt_conv_Cons map_Suc_upt [symmetric] del: upt_Suc)
  with hd tl show ?case by simp
qed

lemma weatherInfo_total:
  "\<not> throwsToString code \<Longrightarrow> \<exists>description icon. weatherInfo code = Inr (description, icon)"
  by (simp add: weatherInfo_def split: option.splits prod.splits)

lemma forecastEntry_ok:
  assumes "getProp daily ''weathercode'' = Inr (JArr codes)"
    and "getProp daily ''temperature_2m_max'' = Inr (JArr maxs)"
    and "getProp daily ''temperature_2m_min'' = Inr (JArr mins)"
    and "getProp daily ''sunrise'' = Inr (JArr rises)"
    and "getProp daily ''sunset'' = Inr (JArr sets)"
    and "weatherInfo (element codes i) = Inr (description, icon)"
  shows "forecastEntry daily d i =
    Inr \<lparr>weatherDescription = description, iconClass = icon, date = d,
         maxTemp = element maxs i, minTemp = element mins i,
         sunrise = element rises i, sunset = element sets i\<rparr>"
  using assms by (simp add: forecastEntry_def element_def)


lemma weatherInfo_projr:
  "\<not> throwsToString code \<Longrightarrow>
   weatherInfo code = Inr (fst (projr (weatherInfo code)), snd (projr (weatherInfo code)))"
  using weatherInfo_total [of code] by auto

lemma element_safe:
  "\<forall>c\<in>set codes. \<not> throwsToString c \<Longrightarrow> \<not> throwsToString (element codes i)"
  by (simp add: element_def)

lemma element_safe_upto:
  "\<forall>i<n. i < length codes \<longrightarrow> \<not> throwsToString (codes ! i) \<Longrightarrow>
   \<forall>i<n. \<not> throwsToString (element codes i)"
  by (simp add: element_def)

lemma buildReport_ok:
  assumes "getProp weatherData ''current_weather'' = Inr current" and "truthy current"
    and "getProp current ''weathercode'' = Inr code" and "\<not> throwsToString code"
    and "getProp weatherData ''daily'' = Inr daily"
    and "getProp daily ''time'' = Inr (JArr ts)"
    and "getProp daily ''weathercode'' = Inr (JArr codes)"
    and "getProp daily ''temperature_2m_max'' = Inr (JArr maxs)"
    and "getProp daily ''temperature_2m_min'' = Inr (JArr mins)"
    and "getProp daily ''sunrise'' = Inr (JArr rises)"
    and "getProp daily ''sunset'' = Inr (JArr sets)"
    and "\<forall>i<length ts. \<not> throwsToString (element codes i)"
  shows "\<exists>result. buildReport name weatherData = Inr result \<and> city result = name
    \<and> weatherInfo code =
        Inr (weatherDescription (currentWeather result), iconClass (currentWeather result))
    \<and> forecast result = map (entryOf ts codes maxs mins rises sets) [0..<length ts]"
proof -
  obtain temp where t: "getProp current ''temperature'' = Inr temp"
    using assms(2) by (cases current) simp_all
  have d: "truthy daily"
    using assms(6) by (cases daily) (simp_all split: if_splits)
  have "forecastEntry daily (ts ! j) (0 + j) = Inr (entryOf ts codes maxs mins rises sets (0 + j))"
    if "j < length ts" for j
    unfolding entryOf_def add_0
    by (rule forecastEntry_ok [OF assms(7-11)])
      (rule weatherInfo_projr [OF assms(12) [rule_format, OF that]])
  then have m: "mapIndexed (forecastEntry daily) ts 0 =
      Inr (map (\<lambda>j. entryOf ts codes maxs mins rises sets (0 + j)) [0..<length ts])"
    by (intro mapIndexed_ok [where g = "\<lambda>x. entryOf ts codes maxs mins rises sets"])
  obtain description icon where w: "weatherInfo code = Inr (description, icon)"
    using weatherInfo_total [OF assms(4)] by blast
  show ?thesis
    using assms(1-6) t d m w by (simp add: buildReport_def)
qed


text \<open>
  C9. With a \<^verbatim>\<open>daily.time\<close> of \<open>n\<close> entries, the forecast has exactly \<open>n\<close> entries,
  whatever the lengths of the five other arrays: the entry \<open>i\<close> takes the date from
  \<^verbatim>\<open>time\<close> and, from each other array, the element \<open>i\<close>, or \<^verbatim>\<open>undefined\<close> when the array
  is too short; no element at \<open>n\<close> or beyond is read. (The codes that are read are
  values whose conversion to a property key does not throw, as numbers are.)
\<close>

theorem forecast_follows_time:
  assumes "cityName \<noteq> []"
    and "fetch env (geocodeUrl cityName) = Responded True (Inr geocodeData)"
    and "forecastRequest env geocodeData = Inr (name, url)"
    and "fetch env url = Responded True (Inr weatherData)"
    and "getProp weatherData ''current_weather'' = Inr current" and "truthy current"
    and "getProp current ''weathercode'' = Inr code" and "\<not> throwsToString code"
    and "getProp weatherData ''daily'' = Inr daily"
    and "getProp daily ''time'' = Inr (JArr ts)"
    and "getProp daily ''weathercode'' = Inr (JArr codes)"
    and "getProp daily ''temperature_2m_max'' = Inr (JArr maxs)"
    and "getProp daily ''temperature_2m_min'' = Inr (JArr mins)"
    and "getProp daily ''sunrise'' = Inr (JArr rises)"
    and "getProp daily ''sunset'' = Inr (JArr sets)"
    and "\<forall>i<length ts. i < length codes \<longrightarrow> \<not> throwsToString (codes ! i)"
  shows "\<exists>result. getWeather env cityName = (Inr result, [geocodeUrl cityName, url])
    \<and> length (forecast result) = length ts
    \<and> (\<forall>i<length ts.
          date (forecast result ! i) = ts ! i
        \<and> maxTemp (forecast result ! i) = (if i < length maxs then maxs ! i else JUndefined)
        \<and> minTemp (forecast result ! i) = (if i < length mins then mins ! i else JUndefined)
        \<and> sunrise (forecast result ! i) = (if i < length rises then rises ! i else JUndefined)
        \<and> sunset (forecast result ! i) = (if i < length sets then sets ! i else JUndefined)
        \<and> weatherInfo (if i < length codes then codes ! i else JUndefined) =
            Inr (weatherDescription (forecast result ! i), iconClass (forecast result ! i)))"
proof -
  note safe = element_safe_upto [OF assms(16)]
  obtain result where r: "buildReport name weatherData = Inr result"
    and f: "forecast result = map (entryOf ts codes maxs mins rises sets) [0..<length ts]"
    using buildReport_ok [OF assms(5-15) safe] by blast
  have "weatherInfo (element codes i) =
      Inr (weatherDescription (entryOf ts codes maxs mins rises sets i),
           iconClass (entryOf ts codes maxs mins rises sets i))" if "i < length ts" for i
    using weatherInfo_projr [OF safe [rule_format, OF that]] by (simp add: entryOf_def)
  then have "\<forall>i<length ts.
        date (forecast result ! i) = ts ! i
      \<and> maxTemp (forecast result ! i) = element maxs i
      \<and> minTemp (forecast result ! i) = element mins i
      \<and> sunrise (forecast result ! i) = element rises i
      \<and> sunset (forecast result ! i) = element sets i
      \<and> weatherInfo (element codes i) =
          Inr (weatherDescription (forecast result ! i), iconClass (forecast result ! i))"
    by (simp add: f) (simp add: entryOf_def)
  then show ?thesis
    using r f by (simp add: getWeather_forecast [OF assms(1-4)] element_def)
qed

theorem forecast_follows_time_witness:
  "''Paris'' \<noteq> []
   \<and> fetch (browser raggedForecast) (geocodeUrl ''Paris'') = Responded True (Inr parisGeocode)
   \<and> forecastRequest (browser raggedForecast) parisGeocode = Inr (JStr ''Paris'', parisUrl)
   \<and> fetch (browser raggedForecast) parisUrl = Responded True (Inr raggedForecast)
   \<and> getProp raggedForecast ''current_weather'' =
       Inr (JObj [(''temperature'', JNum 18.4), (''weathercode'', JNum 2)])
   \<and> truthy (JObj [(''temperature'', JNum 18.4), (''weathercode'', JNum 2)])
   \<and> getProp (JObj [(''temperature'', JNum 18.4), (''weathercode'', JNum 2)]) ''weathercode'' =
       Inr (JNum 2)
   \<and> \<not> throwsToString (JNum 2)
   \<and> getProp raggedForecast ''daily'' = Inr raggedDaily
   \<and> getProp raggedDaily ''time'' =
       Inr (JArr [JStr ''2024-03-01'', JStr ''2024-03-02'', JStr ''2024-03-03''])
   \<and> getProp raggedDaily ''weathercode'' = Inr (JArr [JNum 2])
   \<and> getProp raggedDaily ''temperature_2m_max'' =
       Inr (JArr [JNum 19, JNum 17, JNum 16, JNum 18, JNum 15])
   \<and> getProp raggedDaily ''temperature_2m_min'' = Inr (JArr [])
   \<and> getProp raggedDaily ''sunrise'' =
       Inr (JArr [JStr ''2024-03-01T07:31'', JStr ''2024-03-02T07:29'', JStr ''2024-03-03T07:27''])
   \<and> getProp raggedDaily ''sunset'' =
       Inr (JArr [JStr ''2024-03-01T18:31'', JStr ''2024-03-02T18:33''])
   \<and> (\<exists>result.
         getWeather (browser raggedForecast) ''Paris'' =
           (Inr result, [geocodeUrl ''Paris'', parisUrl])
       \<and> length (forecast result) = 3
       \<and> maxTemp (forecast result ! 2) = JNum 16
       \<and> minTemp (forecast result ! 2) = JUndefined
       \<and> sunset (forecast result ! 2) = JUndefined
       \<and> weatherInfo JUndefined =
           Inr (weatherDescription (forecast result ! 2), iconClass (forecast result ! 2)))"
proof -
  have h1: "''Paris'' \<noteq> []" by simp
  have h5: "getProp raggedForecast ''current_weather'' =
      Inr (JObj [(''temperature'', JNum 18.4), (''weathercode'', JNum 2)])"
    by (simp add: raggedForecast_def)
  have h6: "truthy (JObj [(''temperature'', JNum 18.4), (''weathercode'', JNum 2)])" by simp
  have h7: "getProp (JObj [(''temperature'', JNum 18.4), (''weathercode'', JNum 2)])
      ''weathercode'' = Inr (JNum 2)"
    by simp
  have h8: "\<not> throwsToString (JNum 2)" by simp
  have h9: "getProp raggedForecast ''daily'' = Inr raggedDaily"
    by (simp add: raggedForecast_def)
  have h10: "getProp raggedDaily ''time'' =
      Inr (JArr [JStr ''2024-03-01'', JStr ''2024-03-02'', JStr ''2024-03-03''])"
    by (simp add: raggedDaily_def)
  have h11: "getProp raggedDaily ''weathercode'' = Inr (JArr [JNum 2])"
    by (simp add: raggedDaily_def)
  have h12: "getProp raggedDaily ''temperature_2m_max'' =
      Inr (JArr [JNum 19, JNum 17, JNum 16, JNum 18, JNum 15])"
    by (simp add: raggedDaily_def)
  have h13: "getProp raggedDaily ''temperature_2m_min'' = Inr (JArr [])"
    by (simp add: raggedDaily_def)
  have h14: "getProp raggedDaily ''sunrise'' =
      Inr (JArr [JStr ''2024-03-01T07:31'', JStr ''2024-03-02T07:29'', JStr ''2024-03-03T07:27''])"
    by (simp add: raggedDaily_def)
  have h15: "getProp raggedDaily ''sunset'' =
      Inr (JArr [JStr ''2024-03-01T18:31'', JStr ''2024-03-02T18:33''])"
    by (simp add: raggedDaily_def)
  have h16: "\<forall>i<length [JStr ''2024-03-01'', JStr ''2024-03-02'', JStr ''2024-03-03''].
      i < length [JNum 2] \<longrightarrow> \<not> throwsToString ([JNum 2] ! i)"
    by simp
  from forecast_follows_time [OF h1 browser_geocode browser_request browser_forecast
      h5 h6 h7 h8 h9 h10 h11 h12 h13 h14 h15 h16]
  obtain result where
    r: "getWeather (browser raggedForecast) ''Paris'' = (Inr result, [geocodeUrl ''Paris'', parisUrl])"
    and l: "length (forecast result) = 3"
    and a: "\<And>i. i < 3 \<Longrightarrow>
        maxTemp (forecast result ! i) =
          (if i < 5 then [JNum 19, JNum 17, JNum 16, JNum 18, JNum 15] ! i else JUndefined)
      \<and> minTemp (forecast result ! i) = JUndefined
      \<and> sunset (forecast result ! i) =
          (if i < 2 then [JStr ''2024-03-01T18:31'', JStr ''2024-03-02T18:33''] ! i else JUndefined)
      \<and> weatherInfo (if i < 1 then [JNum 2] ! i else JUndefined) =
          Inr (weatherDescription (forecast result ! i), iconClass (forecast result ! i))"
    by auto
  from a [of 2] have
    "maxTemp (forecast result ! 2) = JNum 16 \<and> minTemp (forecast result ! 2) = JUndefined
     \<and> sunset (forecast result ! 2) = JUndefined
     \<and> weatherInfo JUndefined =
         Inr (weatherDescription (forecast result ! 2), iconClass (forecast result ! 2))"
    by simp
  with r l have "\<exists>result.
         getWeather (browser raggedForecast) ''Paris'' =
           (Inr result, [geocodeUrl ''Paris'', parisUrl])
       \<and> length (forecast result) = 3
       \<and> maxTemp (forecast result ! 2) = JNum 16
       \<and> minTemp (forecast result ! 2) = JUndefined
       \<and> sunset (forecast result ! 2) = JUndefined
       \<and> weatherInfo JUndefined =
           Inr (weatherDescription (forecast result ! 2), iconClass (forecast result ! 2))"
    by blast
  then show ?thesis
    by (intro conjI h1 browser_geocode browser_request browser_forecast
        h5 h6 h7 h8 h9 h10 h11 h12 h13 h14 h15)
qed


text \<open>
  C4. For a well-formed forecast whose six daily arrays have five entries, \<open>getWeather\<close>
  returns a report whose forecast has exactly five entries, in the order of the arrays:
  the dates of the entries are \<^verbatim>\<open>daily.time\<close>, and likewise for the other fields.
\<close>

theorem five_days_in_order:
  assumes "cityName \<noteq> []"
    and "fetch env (geocodeUrl cityName) = Responded True (Inr geocodeData)"
    and "forecastRequest env geocodeData = Inr (name, url)"
    and "fetch env url = Responded True (Inr weatherData)"
    and "getProp weatherData ''current_weather'' = Inr current" and "truthy current"
    and "getProp current ''weathercode'' = Inr code" and "\<not> throwsToString code"
    and "getProp weatherData ''daily'' = Inr daily"
    and "getProp daily ''time'' = Inr (JArr ts)"
    and "getProp daily ''weathercode'' = Inr (JArr codes)"
    and "getProp daily ''temperature_2m_max'' = Inr (JArr maxs)"
    and "getProp daily ''temperature_2m_min'' = Inr (JArr mins)"
    and "getProp daily ''sunrise'' = Inr (JArr rises)"
    and "getProp daily ''sunset'' = Inr (JArr sets)"
    and "\<forall>c\<in>set codes. \<not> throwsToString c"
    and "length ts = 5" and "length codes = 5" and "length maxs = 5" and "length mins = 5"
    and "length rises = 5" and "length sets = 5"
  shows "\<exists>result. getWeather env cityName = (Inr result, [geocodeUrl cityName, url])
    \<and> length (forecast result) = 5
    \<and> map date (forecast result) = ts
    \<and> map maxTemp (forecast result) = maxs \<and> map minTemp (forecast result) = mins
    \<and> map sunrise (forecast result) = rises \<and> map sunset (forecast result) = sets"
proof -
  obtain result where r: "buildReport name weatherData = Inr result"
    and f: "forecast result = map (entryOf ts codes maxs mins rises sets) [0..<length ts]"
    using buildReport_ok [OF assms(5-15)] element_safe [OF assms(16)] by blast
  have "map date (forecast result) = ts"
    by (rule nth_equalityI) (simp_all add: f entryOf_def)
  moreover have "map maxTemp (forecast result) = maxs"
    using assms(17,19) by (intro nth_equalityI) (simp_all add: f entryOf_def element_def)
  moreover have "map minTemp (forecast result) = mins"
    using assms(17,20) by (intro nth_equalityI) (simp_all add: f entryOf_def element_def)
  moreover have "map sunrise (forecast result) = rises"
    using assms(17,21) by (intro nth_equalityI) (simp_all add: f entryOf_def element_def)
  moreover have "map sunset (forecast result) = sets"
    using assms(17,22) by (intro nth_equalityI) (simp_all add: f entryOf_def element_def)
  ultimately show ?thesis
    using r f assms(17) by (simp add: getWeather_forecast [OF assms(1-4)])
qed


theorem five_days_in_order_witness:
  "''Paris'' \<noteq> []
   \<and> fetch (browser parisForecast) (geocodeUrl ''Paris'') = Responded True (Inr parisGeocode)
   \<and> forecastRequest (browser parisForecast) parisGeocode = Inr (JStr ''Paris'', parisUrl)
   \<and> fetch (browser parisForecast) parisUrl = Responded True (Inr parisForecast)
   \<and> getProp parisForecast ''current_weather'' =
       Inr (JObj [(''temperature'', JNum 18.4), (''weathercode'', JNum 2)])
   \<and> truthy (JObj [(''temperature'', JNum 18.4), (''weathercode'', JNum 2)])
   \<and> getProp (JObj [(''temperature'', JNum 18.4), (''weathercode'', JNum 2)]) ''weathercode'' =
       Inr (JNum 2)
   \<and> \<not> throwsToString (JNum 2)
   \<and> getProp parisForecast ''daily'' = Inr parisDaily
   \<and> getProp parisDaily ''time'' =
       Inr (JArr [JStr ''2024-03-01'', JStr ''2024-03-02'', JStr ''2024-03-03'',
                  JStr ''2024-03-04'', JStr ''2024-03-05''])
   \<and> getProp parisDaily ''weathercode'' = Inr (JArr [JNum 2, JNum 61, JNum 3, JNum 0, JNum 45])
   \<and> getProp parisDaily ''temperature_2m_max'' =
       Inr (JArr [JNum 19, JNum 17, JNum 16, JNum 18, JNum 15])
   \<and> getProp parisDaily ''temperature_2m_min'' =
       Inr (JArr [JNum 9, JNum 8, JNum 7, JNum 10, JNum 6])
   \<and> getProp parisDaily ''sunrise'' =
       Inr (JArr [JStr ''2024-03-01T07:31'', JStr ''2024-03-02T07:29'', JStr ''2024-03-03T07:27'',
                  JStr ''2024-03-04T07:25'', JStr ''2024-03-05T07:23''])
   \<and> getProp parisDaily ''sunset'' =
       Inr (JArr [JStr ''2024-03-01T18:31'', JStr ''2024-03-02T18:33'', JStr ''2024-03-03T18:34'',
                  JStr ''2024-03-04T18:36'', JStr ''2024-03-05T18:37''])
   \<and> list_all (\<lambda>c. \<not> throwsToString c) [JNum 2, JNum 61, JNum 3, JNum 0, JNum 45]
   \<and> (\<exists>result.
         getWeather (browser parisForecast) ''Paris'' =
           (Inr result, [geocodeUrl ''Paris'', parisUrl])
       \<and> length (forecast result) = 5
       \<and> map date (forecast result) =
           [JStr ''2024-03-01'', JStr ''2024-03-02'', JStr ''2024-03-03'',
            JStr ''2024-03-04'', JStr ''2024-03-05''])"
proof -
  have h1: "''Paris'' \<noteq> []" by simp
  have h5: "getProp parisForecast ''current_weather'' =
      Inr (JObj [(''temperature'', JNum 18.4), (''weathercode'', JNum 2)])"
    by (simp add: parisForecast_def)
  have h6: "truthy (JObj [(''temperature'', JNum 18.4), (''weathercode'', JNum 2)])" by simp
  have h7: "getProp (JObj [(''temperature'', JNum 18.4), (''weathercode'', JNum 2)])
      ''weathercode'' = Inr (JNum 2)"
    by simp
  have h8: "\<not> throwsToString (JNum 2)" by simp
  have h9: "getProp parisForecast ''daily'' = Inr parisDaily"
    by (simp add: parisForecast_def)
  have h10: "getProp parisDaily ''time'' =
      Inr (JArr [JStr ''2024-03-01'', JStr ''2024-03-02'', JStr ''2024-03-03'',
                 JStr ''2024-03-04'', JStr ''2024-03-05''])"
    by (simp add: parisDaily_def)
  have h11: "getProp parisDaily ''weathercode'' =
      Inr (JArr [JNum 2, JNum 61, JNum 3, JNum 0, JNum 45])"
    by (simp add: parisDaily_def)
  have h12: "getProp parisDaily ''temperature_2m_max'' =
      Inr (JArr [JNum 19, JNum 17, JNum 16, JNum 18, JNum 15])"
    by (simp add: parisDaily_def)
  have h13: "getProp parisDaily ''temperature_2m_min'' =
      Inr (JArr [JNum 9, JNum 8, JNum 7, JNum 10, JNum 6])"
    by (simp add: parisDaily_def)
  have h14: "getProp parisDaily ''sunrise'' =
      Inr (JArr [JStr ''2024-03-01T07:31'', JStr ''2024-03-02T07:29'', JStr ''2024-03-03T07:27'',
                 JStr ''2024-03-04T07:25'', JStr ''2024-03-05T07:23''])"
    by (simp add: parisDaily_def)
  have h15: "getProp parisDaily ''sunset'' =
      Inr (JArr [JStr ''2024-03-01T18:31'', JStr ''2024-03-02T18:33'', JStr ''2024-03-03T18:34'',
                 JStr ''2024-03-04T18:36'', JStr ''2024-03-05T18:37''])"
    by (simp add: parisDaily_def)
  have h16: "\<forall>c\<in>set [JNum 2, JNum 61, JNum 3, JNum 0, JNum 45]. \<not> throwsToString c" by simp
  have h16': "list_all (\<lambda>c. \<not> throwsToString c) [JNum 2, JNum 61, JNum 3, JNum 0, JNum 45]"
    by simp
  from five_days_in_order [OF h1 browser_geocode browser_request browser_forecast
      h5 h6 h7 h8 h9 h10 h11 h12 h13 h14 h15 h16]
  have "\<exists>result.
         getWeather (browser parisForecast) ''Paris'' =
           (Inr result, [geocodeUrl ''Paris'', parisUrl])
       \<and> length (forecast result) = 5
       \<and> map date (forecast result) =
           [JStr ''2024-03-01'', JStr ''2024-03-02'', JStr ''2024-03-03'',
            JStr ''2024-03-04'', JStr ''2024-03-05'']"
    by auto
  then show ?thesis
    by (intro conjI h1 browser_geocode browser_request browser_forecast
        h5 h6 h7 h8 h9 h10 h11 h12 h13 h14 h15 h16')
qed

lemma andThen_Inr_iff: "andThen m f = Inr r \<longleftrightarrow> (\<exists>v. m = Inr v \<and> f v = Inr r)"
  by (cases m) auto

lemma map_step_city:
  "(case timeArray of
      JArr ts \<Rightarrow> andThen (mapIndexed f ts 0) (\<lambda>forecastArray. Inr (g forecastArray))
    | _ \<Rightarrow> Inl typeError) = Inr result \<Longrightarrow> \<exists>forecastArray. result = g forecastArray"
  by (cases timeArray) (auto simp: andThen_Inr_iff)

lemma buildReport_city:
  assumes "buildReport name weatherData = Inr result"
  shows "city result = name"
proof -
  from assms obtain daily temp description icon timeArray
    where "(case timeArray of
        JArr ts \<Rightarrow>
          andThen (mapIndexed (forecastEntry daily) ts 0) (\<lambda>forecastArray.
            Inr \<lparr>city = name,
                 currentWeather = \<lparr>weatherDescription = description,
                                   iconClass = icon, temperature = temp\<rparr>,
                 forecast = forecastArray\<rparr>)
      | _ \<Rightarrow> Inl typeError) = Inr result"
    by (auto simp: buildReport_def andThen_Inr_iff split: if_splits prod.splits)
  from map_step_city [OF this] show ?thesis by auto
qed

lemma firstResult_name:
  assumes "firstResult geocodeData = Inr (latitude, longitude, name)"
    and "getProp geocodeData ''results'' = Inr (JArr (first # others))"
  shows "getProp first ''name'' = Inr name"
  using assms by (auto simp: firstResult_def andThen_Inr_iff split: if_splits)

lemma forecastRequest_name:
  "forecastRequest env geocodeData = Inr (name, url) \<Longrightarrow>
   \<exists>latitude longitude. firstResult geocodeData = Inr (latitude, longitude, name)"
  by (auto simp: forecastRequest_def andThen_Inr_iff split: prod.splits)

lemma getWeather_Inr:
  assumes "getWeather env cityName = (Inr result, sent)"
    and "fetch env (geocodeUrl cityName) = Responded True (Inr geocodeData)"
  shows "\<exists>name url weatherData.
    forecastRequest env geocodeData = Inr (name, url) \<and> buildReport name weatherData = Inr result"
proof -
  from assms(1) have c: "cityName \<noteq> []"
    by (auto simp: getWeather_def)
  show ?thesis
  proof (cases "forecastRequest env geocodeData")
    case (Inl err)
    with assms c show ?thesis
      by (simp add: getWeather_def fetchJSON_ok)
  next
    case (Inr p)
    obtain name url where p: "p = (name, url)" by (cases p)
    obtain w s where f: "fetchJSON env url
        ''Failed to fetch weather data. Please try again later.'' 5000 = (w, s)"
      by (cases "fetchJSON env url ''Failed to fetch weather data. Please try again later.'' 5000")
    from assms c Inr p f have "andThen w (buildReport name) = Inr result"
      by (simp add: getWeather_def fetchJSON_ok split: sum.splits)
    then obtain weatherData where "buildReport name weatherData = Inr result"
      by (auto simp: andThen_Inr_iff)
    with Inr p show ?thesis by blast
  qed
qed

lemma paris_getWeather:
  "getWeather parisEnv ''Paris'' = (Inr parisReport, [geocodeUrl ''Paris'', parisUrl])"
proof -
  have "getWeather (browser parisForecast) ''Paris'' =
      (case buildReport (JStr ''Paris'') parisForecast of
         Inl err \<Rightarrow> Inl (rethrow err) | Inr result \<Rightarrow> Inr result,
       [geocodeUrl ''Paris'', parisUrl])"
    by (rule getWeather_forecast [OF _ browser_geocode browser_request browser_forecast]) simp
  then show ?thesis
    by (simp add: parisEnv_def paris_build)
qed

lemma parisReport_fields:
  "city parisReport = JStr ''Paris''
   \<and> weatherDescription (currentWeather parisReport) = JStr ''Partly cloudy''
   \<and> length (forecast parisReport) = 5"
  by (simp add: parisReport_def)

text \<open>
  C8. Whenever the geocoder answers with a non-empty \<^verbatim>\<open>results\<close> array and \<open>getWeather\<close>
  returns a report, the city of the report is the \<^verbatim>\<open>name\<close> of the first result. In the
  scenario of Paris the report has the city "Paris", the current description "Partly
  cloudy" (code 2) and a forecast of five entries.
\<close>

theorem city_is_first_result_name:
  assumes "fetch env (geocodeUrl cityName) = Responded True (Inr geocodeData)"
    and "getProp geocodeData ''results'' = Inr (JArr (first # others))"
    and "getWeather env cityName = (Inr result, sent)"
  shows "getProp first ''name'' = Inr (city result)
    \<and> getWeather parisEnv ''Paris'' = (Inr parisReport, [geocodeUrl ''Paris'', parisUrl])
    \<and> city parisReport = JStr ''Paris''
    \<and> weatherDescription (currentWeather parisReport) = JStr ''Partly cloudy''
    \<and> length (forecast parisReport) = 5"
proof -
  from getWeather_Inr [OF assms(3,1)] obtain name url weatherData
    where r: "forecastRequest env geocodeData = Inr (name, url)"
      and b: "buildReport name weatherData = Inr result"
    by blast
  from forecastRequest_name [OF r] obtain latitude longitude
    where "firstResult geocodeData = Inr (latitude, longitude, name)"
    by blast
  then have "getProp first ''name'' = Inr name"
    using assms(2) by (rule firstResult_name)
  with buildReport_city [OF b] have "getProp first ''name'' = Inr (city result)"
    by simp
  with paris_getWeather parisReport_fields show ?thesis
    by (intro conjI) simp_all
qed

lemma browser_geocode_lower:
  "fetch (browser w) (geocodeUrl ''paris'') = Responded True (Inr parisGeocode)"
  by code_simp

theorem city_is_first_result_name_witness:
  "fetch parisEnv (geocodeUrl ''paris'') = Responded True (Inr parisGeocode)
   \<and> getProp parisGeocode ''results'' =
       Inr (JArr [JObj [(''latitude'', JNum 48.8566), (''longitude'', JNum 2.3522),
                        (''name'', JStr ''Paris'')]])
   \<and> getWeather parisEnv ''paris'' = (Inr parisReport, [geocodeUrl ''paris'', parisUrl])
   \<and> getProp (JObj [(''latitude'', JNum 48.8566), (''longitude'', JNum 2.3522),
                    (''name'', JStr ''Paris'')]) ''name'' = Inr (city parisReport)"
proof -
  have h1: "fetch parisEnv (geocodeUrl ''paris'') = Responded True (Inr parisGeocode)"
    unfolding parisEnv_def by (rule browser_geocode_lower)
  have h2: "getProp parisGeocode ''results'' =
      Inr (JArr [JObj [(''latitude'', JNum 48.8566), (''longitude'', JNum 2.3522),
                       (''name'', JStr ''Paris'')]])"
    by (simp add: parisGeocode_def)
  have "getWeather (browser parisForecast) ''paris'' =
      (case buildReport (JStr ''Paris'') parisForecast of
         Inl err \<Rightarrow> Inl (rethrow err) | Inr result \<Rightarrow> Inr result,
       [geocodeUrl ''paris'', parisUrl])"
    by (rule getWeather_forecast [OF _ browser_geocode_lower browser_request browser_forecast])
      simp
  then have h3: "getWeather parisEnv ''paris'' =
      (Inr parisReport, [geocodeUrl ''paris'', parisUrl])"
    by (simp add: parisEnv_def paris_build)
  note t = city_is_first_result_name [OF h1 h2 h3]
  show ?thesis
    by (intro conjI h1 h2 h3 t [THEN conjunct1])
qed

lemma trim_blank:
  assumes "\<forall>c\<in>set s. isWhiteSpace c"
  shows "trim s = []"
proof -
  from assms have d: "dropWhile isWhiteSpace s = []" by simp
  show ?thesis unfolding trim_def d by simp
qed

text \<open>
  C2, as the code has it. The submit handler trims the input and \<open>getWeather\<close> rejects
  the empty string: for an input that is empty or white space only, the handler shows
  "City name is required." and no request is sent; \<open>getWeather\<close> on the empty string
  fails with that message and sends nothing.
\<close>

theorem blank_input_rejected:
  assumes "\<forall>c\<in>set input. isWhiteSpace c"
  shows "submit env input = (ErrorText (Text ''City name is required.''), [])
    \<and> getWeather env [] = (Inl (newError ''City name is required.''), [])"
  using trim_blank [OF assms]
  by (simp add: submit_def getWeather_def newError_def)

theorem blank_input_rejected_witness:
  "isWhiteSpace (CHR 0x20) \<and> isWhiteSpace (CHR 0x09)
   \<and> submit parisEnv [CHR 0x20, CHR 0x09, CHR 0x20] =
       (ErrorText (Text ''City name is required.''), [])
   \<and> getWeather parisEnv [] = (Inl (newError ''City name is required.''), [])"
proof -
  have h: "\<forall>c\<in>set [CHR 0x20, CHR 0x09, CHR 0x20]. isWhiteSpace c"
    by (simp add: isWhiteSpace_def)
  note t = blank_input_rejected [OF h, of parisEnv]
  from h have "isWhiteSpace (CHR 0x20)" and "isWhiteSpace (CHR 0x09)" by simp_all
  then show ?thesis
    by (intro conjI t [THEN conjunct1] t [THEN conjunct2])
qed

lemma browser_geocode_blank:
  "fetch (browser w) ''https://geocoding-api.open-meteo.com/v1/search?name=%20%20'' =
     Responded True (Inr parisGeocode)"
  by code_simp

lemma geocodeUrl_blank:
  "geocodeUrl ''  '' = ''https://geocoding-api.open-meteo.com/v1/search?name=%20%20''"
  by code_simp

text \<open>
  \<open>getWeather\<close> itself does not trim: called on two spaces it sends both requests and
  returns a report.
\<close>

theorem whitespace_city_counterexample:
  "getWeather parisEnv ''  '' =
     (Inr parisReport,
      [''https://geocoding-api.open-meteo.com/v1/search?name=%20%20'', parisUrl])"
proof -
  have g: "fetch (browser parisForecast) (geocodeUrl ''  '') = Responded True (Inr parisGeocode)"
    by (simp only: geocodeUrl_blank browser_geocode_blank)
  have "getWeather (browser parisForecast) ''  '' =
      (case buildReport (JStr ''Paris'') parisForecast of
         Inl err \<Rightarrow> Inl (rethrow err) | Inr result \<Rightarrow> Inr result,
       [geocodeUrl ''  '', parisUrl])"
    by (rule getWeather_forecast [OF _ g browser_request browser_forecast]) simp
  then show ?thesis
    by (simp only: parisEnv_def paris_build geocodeUrl_blank sum.case)
qed

section \<open>The failures of fetchJSON\<close>

lemma withNetwork_at: "network (withNetwork env url x) url = x"
  by (simp add: withNetwork_def)

text \<open>
  After the response has arrived in time nothing bounds the reading of its body: when
  the body never comes to its end, neither does \<open>fetchJSON\<close>, whatever the timeout.
\<close>

lemma fetchJSON_stalled_body:
  "t < timeout \<Longrightarrow>
   fetchJSON (withNetwork env url (Answers t True (Inl NeverSettles))) url errorMessage timeout =
     (Inl NeverSettles, [url])"
  by (simp add: fetchJSON_def fetchWithin_def withNetwork_at)



section \<open>The markup of the result\<close>

lemma escapeChar_no_markup:
  \<open>set (escapeChar c) \<inter> {CHR ''<'', CHR ''>'', CHR 0x22, CHR 0x27} = {}\<close>
  by (simp add: escapeChar_def)

text \<open>What \<open>escapeHtml\<close> returns has no angle bracket and no quote: the city is safe.\<close>

lemma escapeHtml_no_markup:
  assumes "escapeHtml env v = Inr s"
  shows \<open>set s \<inter> {CHR ''<'', CHR ''>'', CHR 0x22, CHR 0x27} = {}\<close>
proof -
  from assms obtain t where "s = concat (map escapeChar t)"
    by (auto simp: escapeHtml_def andThen_Inr_iff)
  then show ?thesis
    using escapeChar_no_markup by auto
qed

lemma escapeHtml_script:
  "escapeHtml env (JStr ''<script>'') = Inr ''&lt;script&gt;''"
  by (simp add: escapeHtml_def toStringMethod_def ToString_def escapeChar_def)

text \<open>
  C6. The handler escapes the city and nothing else: the date of a forecast day, a string
  of the forecast service, goes into the markup as it is. With a forecast whose date is
  \<^verbatim>\<open><script>alert(1)</script>\<close> the value assigned to \<^verbatim>\<open>innerHTML\<close> contains that element.
\<close>

theorem date_markup_unescaped:
  \<open>fst (submit markupEnv ''Paris'') =
     InnerHTML
       (''<h2>Weather in Paris</h2>\<newline>''
        @ ''      <div class="current-weather">\<newline>''
        @ ''        <i class="wi wi-day-cloudy" style="font-size: 80px;"></i>\<newline>''
        @ ''        <p>Temperature: 18.4''
        @ [CHR 0xB0]
        @ ''C</p>\<newline>''
        @ ''        <p>Conditions: Partly cloudy</p>\<newline>''
        @ ''      </div>\<newline>''
        @ ''    <h3>5-Day Forecast</h3><div class="forecast-container">\<newline>''
        @ ''        <div class="forecast-day">\<newline>''
        @ ''          <h4><script>alert(1)</script></h4>\<newline>''
        @ ''          <i class="wi wi-day-cloudy" style="font-size: 48px;"></i>\<newline>''
        @ ''          <p>Max: 19''
        @ [CHR 0xB0]
        @ ''C, Min: 9''
        @ [CHR 0xB0]
        @ ''C</p>\<newline>''
        @ ''          <p>Sunrise: 07:31</p>\<newline>''
        @ ''          <p>Sunset: 18:31</p>\<newline>''
        @ ''          <p>Partly cloudy</p>\<newline>''
        @ ''        </div>\<newline>''
        @ ''      </div>'')\<close>
  by code_simp

section \<open>The dates of the request\<close>

text \<open>
  C3. \<^verbatim>\<open>toISOString\<close> writes the date in UTC, while \<^verbatim>\<open>getDate\<close> and \<^verbatim>\<open>setDate\<close> work in
  local time. In Brisbane on 2 March 2024 at 08:00 the local date is 2 March, and the
  request asks for 1 March to 5 March: the window starts on the UTC date, the day before
  the local date.
\<close>

theorem start_date_is_utc_date:
  "civilFromDays (Day (LocalTime brisbaneEnv (now brisbaneEnv))) = (2024, 3, 2)
   \<and> dateRange brisbaneEnv = Inr (''2024-03-01'', ''2024-03-05'')
   \<and> snd (getWeather brisbaneEnv ''Paris'') =
       [''https://geocoding-api.open-meteo.com/v1/search?name=Paris'',
        ''https://api.open-meteo.com/v1/forecast?latitude=48.8566&longitude=2.3522&current_weather=true&daily=weathercode,temperature_2m_max,temperature_2m_min,sunrise,sunset&timezone=auto&start_date=2024-03-01&end_date=2024-03-05'']"
  by code_simp

text \<open>
  Across the beginning of summer time the end date is the local day plus four at the same
  local time of day, which is an hour less than four days later: from 30 March 2024,
  00:30 UTC, the request asks for four days only.
\<close>

lemma summer_time_window:
  "dateRange summerTimeEnv = Inr (''2024-03-30'', ''2024-04-02'')"
  by code_simp

end
